theory Spec2Isabelle
  imports Complex_Main "HOL-Library.Log_Nat"
begin

section \<open>Python floats\<close>

text \<open>
  Prices and distances are Python floats (IEEE 754 binary64). A finite float is modelled by
  the rational number it denotes; every arithmetic operation computes the exact rational
  result and rounds it to the nearest binary64 value, ties to the even mantissa (\<open>fl\<close>).
  Gradual underflow is modelled (the exponent is bounded below by \<open>-1074\<close>); overflow to
  infinity, NaN and the sign of zero are not: the model is exact for results of magnitude
  below \<open>2 ^ 1024\<close>.
\<close>

type_synonym pyfloat = rat

definition round_half_even :: "rat \<Rightarrow> int" where
  "round_half_even x =
     (let f = \<lfloor>x\<rfloor>; r = x - of_int f
      in if r < 1 / 2 then f
         else if 1 / 2 < r then f + 1
         else if even f then f else f + 1)"

definition pow2 :: "int \<Rightarrow> rat" where
  "pow2 e = (if 0 \<le> e then 2 ^ nat e else 1 / 2 ^ nat (- e))"

text \<open>\<open>ilog2 q\<close> is the integer \<open>k\<close> with \<open>2 ^ k \<le> q < 2 ^ (k + 1)\<close>, for \<open>q > 0\<close>.\<close>

definition ilog2 :: "rat \<Rightarrow> int" where
  "ilog2 q =
     (if 1 \<le> q then bitlen \<lfloor>q\<rfloor> - 1
      else let b = bitlen \<lfloor>1 / q\<rfloor>
           in if 1 / q = 2 ^ nat (b - 1) then - (b - 1) else - b)"

definition fl :: "rat \<Rightarrow> pyfloat" where
  "fl q =
     (if q = 0 then 0
      else let e = max (ilog2 \<bar>q\<bar> - 52) (- 1074);
               m = round_half_even (\<bar>q\<bar> / pow2 e)
           in sgn q * of_int m * pow2 e)"

definition fadd :: "pyfloat \<Rightarrow> pyfloat \<Rightarrow> pyfloat" where
  "fadd a b = fl (a + b)"

definition fmul :: "pyfloat \<Rightarrow> pyfloat \<Rightarrow> pyfloat" where
  "fmul a b = fl (a * b)"

definition fdiv :: "pyfloat \<Rightarrow> pyfloat \<Rightarrow> pyfloat" where
  "fdiv a b = fl (a / b)"

text \<open>
  \<^verbatim>\<open>round(x, 2)\<close> on a float: the exact value of \<open>x\<close> is rounded to two decimals,
  ties to the even digit, and the decimal result is converted back to the nearest float.
\<close>

definition py_round2 :: "pyfloat \<Rightarrow> pyfloat" where
  "py_round2 x = fl (of_int (round_half_even (x * 100)) / 100)"


section \<open>Strings, exceptions and request data\<close>

text \<open>\<^verbatim>\<open>str.strip()\<close>: leading and trailing (ASCII) whitespace is removed.\<close>

definition is_space :: "char \<Rightarrow> bool" where
  "is_space c = (let n = (of_char c :: nat)
                 in (9 \<le> n \<and> n \<le> 13) \<or> (28 \<le> n \<and> n \<le> 32))"

definition strip :: "string \<Rightarrow> string" where
  "strip s = rev (dropWhile is_space (rev (dropWhile is_space s)))"

text \<open>\<^verbatim>\<open>needle in haystack\<close> on strings.\<close>

fun starts_with :: "string \<Rightarrow> string \<Rightarrow> bool" where
  "starts_with [] hay = True"
| "starts_with (c # cs) [] = False"
| "starts_with (c # cs) (h # hs) = (c = h \<and> starts_with cs hs)"

fun str_in :: "string \<Rightarrow> string \<Rightarrow> bool" where
  "str_in needle [] = starts_with needle []"
| "str_in needle (h # hs) = (starts_with needle (h # hs) \<or> str_in needle hs)"

text \<open>
  The exceptions that reach the two views, each with the text \<^verbatim>\<open>str(e)\<close> gives.
  \<open>RequestException\<close> is \<^verbatim>\<open>requests.RequestException\<close> (connection failure, timeout,
  HTTP error status); \<open>ApiError\<close> and \<open>TransportError\<close> are the exceptions of the
  commercial directions client; \<open>DatabaseError\<close> stands for whatever
  \<^verbatim>\<open>objects.create\<close> raises.
\<close>

datatype exn =
    ValueError string
  | RequestException string
  | IndexError string
  | ApiError string
  | TransportError string
  | DatabaseError string

fun str_of :: "exn \<Rightarrow> string" where
  "str_of (ValueError m) = m"
| "str_of (RequestException m) = m"
| "str_of (IndexError m) = m"
| "str_of (ApiError m) = m"
| "str_of (TransportError m) = m"
| "str_of (DatabaseError m) = m"

text \<open>\<^verbatim>\<open>request.method\<close> and \<^verbatim>\<open>request.POST\<close> (the last value submitted for each key).\<close>

record request =
  req_method :: string
  POST :: "string \<rightharpoonup> string"

definition post_get :: "request \<Rightarrow> string \<Rightarrow> string \<Rightarrow> string" where
  "post_get req k dflt = (case POST req k of Some v \<Rightarrow> v | None \<Rightarrow> dflt)"

definition post_has :: "request \<Rightarrow> string \<Rightarrow> bool" where
  "post_has req k = (POST req k \<noteq> None)"

text \<open>A form value that is the submitted string, or the integer default of the view.\<close>

datatype pyval = PStr string | PInt int

definition post_get_int :: "request \<Rightarrow> string \<Rightarrow> int \<Rightarrow> pyval" where
  "post_get_int req k dflt = (case POST req k of Some v \<Rightarrow> PStr v | None \<Rightarrow> PInt dflt)"

text \<open>The \<^verbatim>\<open>form_data\<close> dictionary, with its fixed keys.\<close>

record form_data =
  fd_passenger_name :: string
  fd_passenger_number :: string
  fd_passenger_email :: string
  fd_number_of_passengers :: pyval
  fd_number_of_bags :: pyval
  fd_pickup_address :: string
  fd_destination_address :: string
  fd_additional_stop :: string
  fd_flight_number :: string
  fd_pickup_date :: string
  fd_pickup_time :: string
  fd_limo_service_type :: string
  fd_baby_seat :: bool
  fd_return_ride :: bool
  fd_special_instruction :: string
  fd_vehicle_colour :: string
  fd_wedding_ribbon :: string
  fd_special_signboard :: string
  fd_name_on_card :: string
  fd_card_type :: string
  fd_card_number :: string

text \<open>One entry of the rate table, and the \<^verbatim>\<open>breakdown\<close> dictionary.\<close>

record rate =
  base :: pyfloat
  per_km :: pyfloat
  stop :: pyfloat

record breakdown =
  bd_base :: pyfloat
  bd_distance_km :: pyfloat
  bd_distance_cost :: pyfloat
  bd_stop_cost :: pyfloat
  bd_toll_cost :: pyfloat
  bd_baby_cost :: pyfloat
  bd_return_multiplier :: bool
  bd_subtotal_before_return :: pyfloat

text \<open>
  Session values: \<^verbatim>\<open>None\<close>, a bool, a float, a breakdown dictionary, or the empty
  dictionary \<^verbatim>\<open>{}\<close> that \<^verbatim>\<open>confirm\<close> uses as a default.
\<close>

datatype sval = SNone | SBool bool | SFloat pyfloat | SBreakdown breakdown | SEmptyDict

type_synonym session = "string \<rightharpoonup> sval"

definition session_pop :: "session \<Rightarrow> string \<Rightarrow> sval \<Rightarrow> sval \<times> session" where
  "session_pop s k dflt = (case s k of Some v \<Rightarrow> (v, s(k := None)) | None \<Rightarrow> (dflt, s))"

text \<open>\<^verbatim>\<open>form_data["pickup_time"] or datetime.time(0, 0)\<close> is a string or a time of day.\<close>

datatype time_value = TimeText string | TimeOfDay nat nat

text \<open>The keyword arguments of \<^verbatim>\<open>objects.create\<close>: one row of the bookings table.\<close>

record booking =
  passenger_name :: string
  passenger_number :: string
  passenger_email :: string
  number_of_passengers :: pyval
  number_of_bags :: pyval
  pickup_address :: string
  destination_address :: string
  additional_stop :: "string option"
  flight_number :: string
  pickup_date :: string
  pickup_time :: time_value
  limo_service_type :: string
  baby_seat :: bool
  return_ride :: bool
  special_instruction :: string
  vehicle_colour :: string
  wedding_ribbon :: string
  special_signboard :: string
  name_on_card :: string
  card_type :: string
  card_number :: string
  total_price :: sval

text \<open>What a view renders: the template and its context.\<close>

datatype response =
    Form string
  | FormError string string form_data
  | Preview string string form_data pyfloat breakdown bool pyfloat
  | Confirmed string booking sval sval bool

text \<open>The state a request can change: the caller's session and the table of rows.\<close>

record state =
  session :: session
  table :: "booking list"


section \<open>External collaborators\<close>

text \<open>
  The replies of the geocoder, of the router and of the directions service, and the
  persistence layer's verdict on a row, are parameters of the model. Replies are
  well-formed: the JSON has the keys the views read.
\<close>

datatype nominatim_reply =
    NominatimFails string
  | NominatimJson "(pyfloat \<times> pyfloat) list"

datatype osrm_reply =
    OsrmFails string
  | OsrmJson "string option" "pyfloat list"

record leg =
  distance_value :: int
  steps :: "string option list"

datatype directions_reply =
    DirectionsRaises exn
  | DirectionsResult "leg list list"

record services =
  nominatim :: "string \<Rightarrow> nominatim_reply"
  osrm :: "(pyfloat \<times> pyfloat) list \<Rightarrow> osrm_reply"
  directions :: "string \<Rightarrow> string \<Rightarrow> string list option \<Rightarrow> directions_reply"
  today :: string
  create_error :: "booking \<Rightarrow> string option"

definition objects_create :: "services \<Rightarrow> booking \<Rightarrow> booking list \<Rightarrow> exn + booking \<times> booking list" where
  "objects_create sv row tbl =
     (case create_error sv row of
        Some m \<Rightarrow> Inl (DatabaseError m)
      | None \<Rightarrow> Inr (row, tbl @ [row]))"


section \<open>bookings/views.py\<close>

definition geocode :: "services \<Rightarrow> string \<Rightarrow> exn + pyfloat \<times> pyfloat" where
  "geocode sv address =
     (case nominatim sv address of
        NominatimFails m \<Rightarrow> Inl (RequestException m)
      | NominatimJson data \<Rightarrow>
          (case data of
             [] \<Rightarrow> Inl (ValueError (''Address not found: '' @ address))
           | (lon, lat) # _ \<Rightarrow> Inr (lon, lat)))"

text \<open>\<^verbatim>\<open>if waypoint:\<close> holds for a string that is present and not empty.\<close>

definition truthy :: "string option \<Rightarrow> bool" where
  "truthy w = (case w of None \<Rightarrow> False | Some s \<Rightarrow> s \<noteq> [])"

definition get_route :: "services \<Rightarrow> string \<Rightarrow> string \<Rightarrow> string option \<Rightarrow> exn + pyfloat" where
  "get_route sv origin destination waypoint =
     (case geocode sv origin of
        Inl e \<Rightarrow> Inl e
      | Inr origin_coords \<Rightarrow>
     (case geocode sv destination of
        Inl e \<Rightarrow> Inl e
      | Inr dest_coords \<Rightarrow>
     (case (if truthy waypoint
            then (case geocode sv (case waypoint of Some w \<Rightarrow> w | None \<Rightarrow> [])  of
                    Inl e \<Rightarrow> Inl e
                  | Inr wp \<Rightarrow> Inr [origin_coords, wp, dest_coords])
            else Inr [origin_coords, dest_coords]) of
        Inl e \<Rightarrow> Inl e
      | Inr coords_parts \<Rightarrow>
     (case osrm sv coords_parts of
        OsrmFails m \<Rightarrow> Inl (RequestException m)
      | OsrmJson code routes \<Rightarrow>
          if code \<noteq> Some ''Ok''
          then Inl (ValueError ''OSRM could not calculate a route for the given addresses.'')
          else (case routes of
                  [] \<Rightarrow> Inl (IndexError ''list index out of range'')
                | distance_m # _ \<Rightarrow> Inr (py_round2 (fdiv distance_m 1000)))))))"

definition rates :: "string \<rightharpoonup> rate" where
  "rates =
     [''Sedan 1-5'' \<mapsto> \<lparr>base = 30, per_km = 7 / 2, stop = 15\<rparr>,
      ''SUV 1-7'' \<mapsto> \<lparr>base = 55, per_km = 11 / 2, stop = 25\<rparr>,
      ''Stretch 1-13'' \<mapsto> \<lparr>base = 135, per_km = 19 / 2, stop = 65\<rparr>]"

definition rates_get :: "string \<Rightarrow> rate" where
  "rates_get service_type =
     (case rates service_type of
        Some conf \<Rightarrow> conf
      | None \<Rightarrow> the (rates ''Sedan 1-5''))"

text \<open>The local variables both views read from \<^verbatim>\<open>request.POST\<close> before branching.\<close>

definition action_of :: "request \<Rightarrow> string" where
  "action_of req = post_get req ''action'' ''calculate''"

definition pickup_of :: "request \<Rightarrow> string" where
  "pickup_of req = strip (post_get req ''pickup_address'' '''')"

definition destination_of :: "request \<Rightarrow> string" where
  "destination_of req = strip (post_get req ''destination_address'' '''')"

definition extra_stop_of :: "request \<Rightarrow> string option" where
  "extra_stop_of req =
     (let stripped = strip (post_get req ''additional_stop'' '''')
      in if stripped = [] then None else Some stripped)"

definition service_type_of :: "request \<Rightarrow> string" where
  "service_type_of req = post_get req ''limo_service_type'' ''Sedan 1-5''"

definition has_baby_seat_of :: "request \<Rightarrow> bool" where
  "has_baby_seat_of req = post_has req ''baby_seat''"

definition is_return_ride_of :: "request \<Rightarrow> bool" where
  "is_return_ride_of req = post_has req ''return_ride''"

definition bookings_form_data :: "services \<Rightarrow> request \<Rightarrow> form_data" where
  "bookings_form_data sv req =
     (let pickup = pickup_of req;
          destination = destination_of req;
          extra_stop = extra_stop_of req;
          service_type = service_type_of req;
          has_baby_seat = has_baby_seat_of req;
          is_return_ride = is_return_ride_of req
      in \<lparr>fd_passenger_name = post_get req ''passenger_name'' '''',
          fd_passenger_number = post_get req ''passenger_number'' '''',
          fd_passenger_email = post_get req ''passenger_email'' '''',
          fd_number_of_passengers = post_get_int req ''number_of_passengers'' 2,
          fd_number_of_bags = post_get_int req ''number_of_bags'' 2,
          fd_pickup_address = pickup,
          fd_destination_address = destination,
          fd_additional_stop = (case extra_stop of Some s \<Rightarrow> s | None \<Rightarrow> ''''),
          fd_flight_number = post_get req ''flight_number'' '''',
          fd_pickup_date = post_get req ''pickup_date'' (today sv),
          fd_pickup_time = post_get req ''pickup_time'' '''',
          fd_limo_service_type = service_type,
          fd_baby_seat = has_baby_seat,
          fd_return_ride = is_return_ride,
          fd_special_instruction = post_get req ''special_instruction'' '''',
          fd_vehicle_colour = post_get req ''vehicle_colour'' '''',
          fd_wedding_ribbon = post_get req ''wedding_ribbon'' '''',
          fd_special_signboard = post_get req ''special_signboard'' '''',
          fd_name_on_card = post_get req ''name_on_card'' '''',
          fd_card_type = post_get req ''card_type'' '''',
          fd_card_number = post_get req ''card_number'' ''''\<rparr>)"

text \<open>The body of the \<^verbatim>\<open>try\<close> of step 1, after the route is known.\<close>

definition bookings_price ::
  "request \<Rightarrow> state \<Rightarrow> form_data \<Rightarrow> string option \<Rightarrow> string \<Rightarrow> bool \<Rightarrow> bool \<Rightarrow> pyfloat
     \<Rightarrow> response \<times> state" where
  "bookings_price req st fd extra_stop service_type has_baby_seat is_return_ride distance_km =
     (let has_tolls = post_has req ''has_tolls'';
          conf = rates_get service_type;
          subtotal = fadd (base conf) (fmul distance_km (per_km conf));
          subtotal = (if truthy extra_stop then fadd subtotal (stop conf) else subtotal);
          subtotal = (if has_tolls then fadd subtotal (37 / 2) else subtotal);
          subtotal = (if has_baby_seat then fadd subtotal 20 else subtotal);
          final_price = (if is_return_ride then fmul subtotal 2 else subtotal);
          final_price = py_round2 final_price;
          bd = \<lparr>bd_base = base conf,
                bd_distance_km = distance_km,
                bd_distance_cost = py_round2 (fmul distance_km (per_km conf)),
                bd_stop_cost = (if truthy extra_stop then stop conf else 0),
                bd_toll_cost = (if has_tolls then 37 / 2 else 0),
                bd_baby_cost = (if has_baby_seat then 20 else 0),
                bd_return_multiplier = is_return_ride,
                bd_subtotal_before_return = py_round2 subtotal\<rparr>;
          s = session st;
          s = s(''pending_price'' \<mapsto> SFloat final_price);
          s = s(''pending_breakdown'' \<mapsto> SBreakdown bd);
          s = s(''pending_has_tolls'' \<mapsto> SBool has_tolls)
      in (Preview ''orders/booking_summary_preview.html'' ''confirm'' fd final_price bd
            has_tolls distance_km,
          st\<lparr>session := s\<rparr>))"

text \<open>
  Step 1. \<^verbatim>\<open>ValueError\<close> and \<^verbatim>\<open>requests.RequestException\<close> are handled; any other
  exception leaves the view.
\<close>

definition bookings_calculate ::
  "services \<Rightarrow> request \<Rightarrow> state \<Rightarrow> form_data \<Rightarrow> string \<Rightarrow> string \<Rightarrow> string option \<Rightarrow> string
     \<Rightarrow> bool \<Rightarrow> bool \<Rightarrow> exn + response \<times> state" where
  "bookings_calculate sv req st fd pickup destination extra_stop service_type
       has_baby_seat is_return_ride =
     (case get_route sv pickup destination extra_stop of
        Inr distance_km \<Rightarrow>
          Inr (bookings_price req st fd extra_stop service_type has_baby_seat
                 is_return_ride distance_km)
      | Inl (ValueError m) \<Rightarrow>
          Inr (FormError ''bookings/booking_form.html'' m fd, st)
      | Inl (RequestException m) \<Rightarrow>
          Inr (FormError ''bookings/booking_form.html''
                 ''Could not connect to the routing service. Please check your addresses and try again.''
                 fd, st)
      | Inl e \<Rightarrow> Inl e)"

definition bookings_row ::
  "form_data \<Rightarrow> string \<Rightarrow> string \<Rightarrow> string option \<Rightarrow> string \<Rightarrow> bool \<Rightarrow> bool \<Rightarrow> sval \<Rightarrow> booking" where
  "bookings_row fd pickup destination extra_stop service_type has_baby_seat is_return_ride
       final_price =
     \<lparr>passenger_name = fd_passenger_name fd,
      passenger_number = fd_passenger_number fd,
      passenger_email = fd_passenger_email fd,
      number_of_passengers = fd_number_of_passengers fd,
      number_of_bags = fd_number_of_bags fd,
      pickup_address = pickup,
      destination_address = destination,
      additional_stop = extra_stop,
      flight_number = fd_flight_number fd,
      pickup_date = fd_pickup_date fd,
      pickup_time = (if fd_pickup_time fd \<noteq> [] then TimeText (fd_pickup_time fd)
                     else TimeOfDay 0 0),
      limo_service_type = service_type,
      baby_seat = has_baby_seat,
      return_ride = is_return_ride,
      special_instruction = fd_special_instruction fd,
      vehicle_colour = fd_vehicle_colour fd,
      wedding_ribbon = fd_wedding_ribbon fd,
      special_signboard = fd_special_signboard fd,
      name_on_card = fd_name_on_card fd,
      card_type = fd_card_type fd,
      card_number = fd_card_number fd,
      total_price = final_price\<rparr>"

text \<open>Step 2. Every exception of the \<^verbatim>\<open>try\<close> is handled.\<close>

definition bookings_confirm ::
  "services \<Rightarrow> state \<Rightarrow> form_data \<Rightarrow> string \<Rightarrow> string \<Rightarrow> string option \<Rightarrow> string
     \<Rightarrow> bool \<Rightarrow> bool \<Rightarrow> response \<times> state" where
  "bookings_confirm sv st fd pickup destination extra_stop service_type
       has_baby_seat is_return_ride =
     (let (final_price, s) = session_pop (session st) ''pending_price'' SNone
      in if final_price = SNone
         then (FormError ''bookings/booking_form.html''
                 ''Your session expired. Please fill in the form again.'' fd,
               st\<lparr>session := s\<rparr>)
         else
           (case objects_create sv
                   (bookings_row fd pickup destination extra_stop service_type
                      has_baby_seat is_return_ride final_price)
                   (table st) of
              Inr (new_order, tbl) \<Rightarrow>
                (let (bd, s) = session_pop s ''pending_breakdown'' SEmptyDict;
                     (has_tolls, s) = session_pop s ''pending_has_tolls'' (SBool False)
                 in (Confirmed ''orders/booking_confirmed.html'' new_order bd has_tolls
                       is_return_ride,
                     \<lparr>session = s, table = tbl\<rparr>))
            | Inl e \<Rightarrow>
                (FormError ''bookings/booking_form.html''
                   (''Could not save your booking: '' @ str_of e) fd,
                 st\<lparr>session := s\<rparr>)))"

definition bookings :: "services \<Rightarrow> request \<Rightarrow> state \<Rightarrow> exn + response \<times> state" where
  "bookings sv req st =
     (if req_method req = ''POST''
      then
        (let action = action_of req;
             pickup = pickup_of req;
             destination = destination_of req;
             extra_stop = extra_stop_of req;
             service_type = service_type_of req;
             has_baby_seat = has_baby_seat_of req;
             is_return_ride = is_return_ride_of req;
             fd = bookings_form_data sv req
         in if action = ''calculate''
            then bookings_calculate sv req st fd pickup destination extra_stop service_type
                   has_baby_seat is_return_ride
            else if action = ''confirm''
            then Inr (bookings_confirm sv st fd pickup destination extra_stop service_type
                        has_baby_seat is_return_ride)
            else Inr (Form ''bookings/booking_form.html'', st))
      else Inr (Form ''bookings/booking_form.html'', st))"

section \<open>orders/views.py\<close>

text \<open>
  The first statements of the \<^verbatim>\<open>try\<close> of step 1: the directions call, the total
  distance over the legs of the first route and the scan of the step instructions for
  the toll marker. \<^verbatim>\<open>directions[0]\<close> on an empty result raises \<^verbatim>\<open>IndexError\<close>.
  The construction of the client from the configured key is not modelled.
\<close>

definition orders_route :: "services \<Rightarrow> string \<Rightarrow> string \<Rightarrow> string option \<Rightarrow> exn + pyfloat \<times> bool" where
  "orders_route sv pickup destination extra_stop =
     (let waypoints = (if truthy extra_stop
                       then Some [case extra_stop of Some w \<Rightarrow> w | None \<Rightarrow> []]
                       else None)
      in case directions sv pickup destination waypoints of
           DirectionsRaises e \<Rightarrow> Inl e
         | DirectionsResult routes \<Rightarrow>
             (case routes of
                [] \<Rightarrow> Inl (IndexError ''list index out of range'')
              | legs # _ \<Rightarrow>
                  (let total_meters = sum_list (map distance_value legs);
                       distance_km = py_round2 (fl (of_int total_meters / 1000));
                       has_tolls =
                         list_ex
                           (\<lambda>step. str_in ''Toll road''
                                      (case step of Some h \<Rightarrow> h | None \<Rightarrow> []))
                           (concat (map steps legs))
                   in Inr (distance_km, has_tolls))))"

definition orders_form_data :: "services \<Rightarrow> request \<Rightarrow> form_data" where
  "orders_form_data sv req =
     (let pickup = pickup_of req;
          destination = destination_of req;
          extra_stop = extra_stop_of req;
          service_type = service_type_of req;
          has_baby_seat = has_baby_seat_of req;
          is_return_ride = is_return_ride_of req
      in \<lparr>fd_passenger_name = post_get req ''passenger_name'' '''',
          fd_passenger_number = post_get req ''passenger_number'' '''',
          fd_passenger_email = post_get req ''passenger_email'' '''',
          fd_number_of_passengers = post_get_int req ''number_of_passengers'' 2,
          fd_number_of_bags = post_get_int req ''number_of_bags'' 2,
          fd_pickup_address = pickup,
          fd_destination_address = destination,
          fd_additional_stop = (case extra_stop of Some s \<Rightarrow> s | None \<Rightarrow> ''''),
          fd_flight_number = post_get req ''flight_number'' '''',
          fd_pickup_date = post_get req ''pickup_date'' (today sv),
          fd_pickup_time = post_get req ''pickup_time'' '''',
          fd_limo_service_type = service_type,
          fd_baby_seat = has_baby_seat,
          fd_return_ride = is_return_ride,
          fd_special_instruction = post_get req ''special_instruction'' '''',
          fd_vehicle_colour = post_get req ''vehicle_colour'' '''',
          fd_wedding_ribbon = post_get req ''wedding_ribbon'' '''',
          fd_special_signboard = post_get req ''special_signboard'' '''',
          fd_name_on_card = post_get req ''name_on_card'' '''',
          fd_card_type = post_get req ''card_type'' '''',
          fd_card_number = post_get req ''card_number'' ''''\<rparr>)"

text \<open>The rest of the \<^verbatim>\<open>try\<close> of step 1, from the rate table on.\<close>

definition orders_price ::
  "state \<Rightarrow> form_data \<Rightarrow> string option \<Rightarrow> string \<Rightarrow> bool \<Rightarrow> bool \<Rightarrow> pyfloat \<Rightarrow> bool
     \<Rightarrow> response \<times> state" where
  "orders_price st fd extra_stop service_type has_baby_seat is_return_ride distance_km has_tolls =
     (let conf = rates_get service_type;
          subtotal = fadd (base conf) (fmul distance_km (per_km conf));
          subtotal = (if truthy extra_stop then fadd subtotal (stop conf) else subtotal);
          subtotal = (if has_tolls then fadd subtotal (37 / 2) else subtotal);
          subtotal = (if has_baby_seat then fadd subtotal 20 else subtotal);
          final_price = (if is_return_ride then fmul subtotal 2 else subtotal);
          final_price = py_round2 final_price;
          bd = \<lparr>bd_base = base conf,
                bd_distance_km = distance_km,
                bd_distance_cost = py_round2 (fmul distance_km (per_km conf)),
                bd_stop_cost = (if truthy extra_stop then stop conf else 0),
                bd_toll_cost = (if has_tolls then 37 / 2 else 0),
                bd_baby_cost = (if has_baby_seat then 20 else 0),
                bd_return_multiplier = is_return_ride,
                bd_subtotal_before_return = py_round2 subtotal\<rparr>;
          s = session st;
          s = s(''pending_price'' \<mapsto> SFloat final_price);
          s = s(''pending_breakdown'' \<mapsto> SBreakdown bd);
          s = s(''pending_has_tolls'' \<mapsto> SBool has_tolls)
      in (Preview ''orders/booking_summary_preview.html'' ''confirm'' fd final_price bd
            has_tolls distance_km,
          st\<lparr>session := s\<rparr>))"

text \<open>Step 1: \<^verbatim>\<open>except Exception\<close> handles every exception of the \<^verbatim>\<open>try\<close>.\<close>

definition orders_calculate ::
  "services \<Rightarrow> state \<Rightarrow> form_data \<Rightarrow> string \<Rightarrow> string \<Rightarrow> string option \<Rightarrow> string
     \<Rightarrow> bool \<Rightarrow> bool \<Rightarrow> response \<times> state" where
  "orders_calculate sv st fd pickup destination extra_stop service_type
       has_baby_seat is_return_ride =
     (case orders_route sv pickup destination extra_stop of
        Inr (distance_km, has_tolls) \<Rightarrow>
          orders_price st fd extra_stop service_type has_baby_seat is_return_ride
            distance_km has_tolls
      | Inl e \<Rightarrow>
          (FormError ''orders/booking_form.html''
             (''Route calculation failed: '' @ str_of e) fd, st))"

definition orders_row ::
  "form_data \<Rightarrow> string \<Rightarrow> string \<Rightarrow> string option \<Rightarrow> string \<Rightarrow> bool \<Rightarrow> bool \<Rightarrow> sval \<Rightarrow> booking" where
  "orders_row fd pickup destination extra_stop service_type has_baby_seat is_return_ride
       final_price =
     \<lparr>passenger_name = fd_passenger_name fd,
      passenger_number = fd_passenger_number fd,
      passenger_email = fd_passenger_email fd,
      number_of_passengers = fd_number_of_passengers fd,
      number_of_bags = fd_number_of_bags fd,
      pickup_address = pickup,
      destination_address = destination,
      additional_stop = extra_stop,
      flight_number = fd_flight_number fd,
      pickup_date = fd_pickup_date fd,
      pickup_time = (if fd_pickup_time fd \<noteq> [] then TimeText (fd_pickup_time fd)
                     else TimeOfDay 0 0),
      limo_service_type = service_type,
      baby_seat = has_baby_seat,
      return_ride = is_return_ride,
      special_instruction = fd_special_instruction fd,
      vehicle_colour = fd_vehicle_colour fd,
      wedding_ribbon = fd_wedding_ribbon fd,
      special_signboard = fd_special_signboard fd,
      name_on_card = fd_name_on_card fd,
      card_type = fd_card_type fd,
      card_number = fd_card_number fd,
      total_price = final_price\<rparr>"

definition orders_confirm ::
  "services \<Rightarrow> state \<Rightarrow> form_data \<Rightarrow> string \<Rightarrow> string \<Rightarrow> string option \<Rightarrow> string
     \<Rightarrow> bool \<Rightarrow> bool \<Rightarrow> response \<times> state" where
  "orders_confirm sv st fd pickup destination extra_stop service_type
       has_baby_seat is_return_ride =
     (let (final_price, s) = session_pop (session st) ''pending_price'' SNone
      in if final_price = SNone
         then (FormError ''orders/booking_form.html''
                 ''Your session expired. Please recalculate the price.'' fd,
               st\<lparr>session := s\<rparr>)
         else
           (case objects_create sv
                   (orders_row fd pickup destination extra_stop service_type
                      has_baby_seat is_return_ride final_price)
                   (table st) of
              Inr (new_order, tbl) \<Rightarrow>
                (let (bd, s) = session_pop s ''pending_breakdown'' SEmptyDict;
                     (has_tolls, s) = session_pop s ''pending_has_tolls'' (SBool False)
                 in (Confirmed ''orders/booking_confirmed.html'' new_order bd has_tolls
                       is_return_ride,
                     \<lparr>session = s, table = tbl\<rparr>))
            | Inl e \<Rightarrow>
                (FormError ''orders/booking_form.html''
                   (''Could not save your booking: '' @ str_of e) fd,
                 st\<lparr>session := s\<rparr>)))"

definition orders :: "services \<Rightarrow> request \<Rightarrow> state \<Rightarrow> exn + response \<times> state" where
  "orders sv req st =
     (if req_method req = ''POST''
      then
        (let action = action_of req;
             pickup = pickup_of req;
             destination = destination_of req;
             extra_stop = extra_stop_of req;
             service_type = service_type_of req;
             has_baby_seat = has_baby_seat_of req;
             is_return_ride = is_return_ride_of req;
             fd = orders_form_data sv req
         in if action = ''calculate''
            then Inr (orders_calculate sv st fd pickup destination extra_stop service_type
                        has_baby_seat is_return_ride)
            else if action = ''confirm''
            then Inr (orders_confirm sv st fd pickup destination extra_stop service_type
                        has_baby_seat is_return_ride)
            else Inr (Form ''orders/booking_form.html'', st))
      else Inr (Form ''orders/booking_form.html'', st))"


section \<open>Derived notions\<close>

text \<open>\<^verbatim>\<open>session.get(k, dflt)\<close>: the value \<^verbatim>\<open>pop\<close> returns, without the removal.\<close>

definition session_get :: "session \<Rightarrow> string \<Rightarrow> sval \<Rightarrow> sval" where
  "session_get s k dflt = (case s k of Some v \<Rightarrow> v | None \<Rightarrow> dflt)"

text \<open>The row step 2 hands to \<^verbatim>\<open>objects.create\<close> for a request and a popped price.\<close>

definition bookings_row_of :: "services \<Rightarrow> request \<Rightarrow> sval \<Rightarrow> booking" where
  "bookings_row_of sv req final_price =
     bookings_row (bookings_form_data sv req) (pickup_of req) (destination_of req)
       (extra_stop_of req) (service_type_of req) (has_baby_seat_of req)
       (is_return_ride_of req) final_price"

definition orders_row_of :: "services \<Rightarrow> request \<Rightarrow> sval \<Rightarrow> booking" where
  "orders_row_of sv req final_price =
     orders_row (orders_form_data sv req) (pickup_of req) (destination_of req)
       (extra_stop_of req) (service_type_of req) (has_baby_seat_of req)
       (is_return_ride_of req) final_price"

text \<open>The keys of \<^verbatim>\<open>request.POST\<close> that the views read into \<^verbatim>\<open>form_data\<close> and the row.\<close>

definition form_keys :: "string list" where
  "form_keys =
     [''passenger_name'', ''passenger_number'', ''passenger_email'',
      ''number_of_passengers'', ''number_of_bags'', ''pickup_address'',
      ''destination_address'', ''additional_stop'', ''flight_number'', ''pickup_date'',
      ''pickup_time'', ''limo_service_type'', ''baby_seat'', ''return_ride'',
      ''special_instruction'', ''vehicle_colour'', ''wedding_ribbon'',
      ''special_signboard'', ''name_on_card'', ''card_type'', ''card_number'']"


section \<open>Example requests\<close>

text \<open>
  A provider that finds every address except \<open>Nowhere\<close> and routes over 10 km without
  tolls, a provider that cannot be reached, and a persistence layer that refuses every row.
\<close>

definition ex_services :: services where
  "ex_services =
     \<lparr>nominatim = (\<lambda>a. if a = ''Nowhere'' then NominatimJson [] else NominatimJson [(145, - 38)]),
      osrm = (\<lambda>cs. OsrmJson (Some ''Ok'') [10000]),
      directions = (\<lambda>p d w. DirectionsResult
                      [[\<lparr>distance_value = 10000, steps = [Some ''Head north'', None]\<rparr>]]),
      today = ''2025-01-01'',
      create_error = (\<lambda>row. None)\<rparr>"

definition ex_offline :: services where
  "ex_offline =
     \<lparr>nominatim = (\<lambda>a. NominatimFails ''connection timed out''),
      osrm = (\<lambda>cs. OsrmFails ''connection timed out''),
      directions = (\<lambda>p d w. DirectionsRaises (TransportError ''connection timed out'')),
      today = ''2025-01-01'',
      create_error = (\<lambda>row. Some ''database is locked'')\<rparr>"

definition ex_fields :: "string \<rightharpoonup> string" where
  "ex_fields =
     [''passenger_name'' \<mapsto> ''Ann'',
      ''pickup_address'' \<mapsto> '' 1 Collins St '',
      ''destination_address'' \<mapsto> ''Melbourne Airport'',
      ''limo_service_type'' \<mapsto> ''Sedan 1-5'']"

definition ex_calculate :: request where
  "ex_calculate = \<lparr>req_method = ''POST'', POST = ex_fields(''action'' \<mapsto> ''calculate'')\<rparr>"

definition ex_confirm :: request where
  "ex_confirm = \<lparr>req_method = ''POST'', POST = ex_fields(''action'' \<mapsto> ''confirm'')\<rparr>"

text \<open>The same confirmation with price-like fields added by the client.\<close>

definition ex_confirm_tampered :: request where
  "ex_confirm_tampered =
     \<lparr>req_method = ''POST'',
      POST = ex_fields(''action'' \<mapsto> ''confirm'', ''total_price'' \<mapsto> ''0.01'',
                       ''pending_price'' \<mapsto> ''0.01'', ''final_price'' \<mapsto> ''0.01'')\<rparr>"

definition ex_breakdown :: breakdown where
  "ex_breakdown =
     \<lparr>bd_base = 30, bd_distance_km = 10, bd_distance_cost = 35, bd_stop_cost = 0,
      bd_toll_cost = 0, bd_baby_cost = 0, bd_return_multiplier = False,
      bd_subtotal_before_return = 65\<rparr>"

definition ex_empty :: state where
  "ex_empty = \<lparr>session = Map.empty, table = []\<rparr>"

definition ex_pending :: state where
  "ex_pending =
     \<lparr>session = [''pending_price'' \<mapsto> SFloat 65,
                 ''pending_breakdown'' \<mapsto> SBreakdown ex_breakdown,
                 ''pending_has_tolls'' \<mapsto> SBool False],
      table = []\<rparr>"

text \<open>The row a confirmation of \<open>ex_confirm\<close> persists from \<open>ex_pending\<close>, and the state after it.\<close>

definition ex_row :: booking where
  "ex_row =
     \<lparr>passenger_name = ''Ann'', passenger_number = '''', passenger_email = '''',
      number_of_passengers = PInt 2, number_of_bags = PInt 2,
      pickup_address = ''1 Collins St'', destination_address = ''Melbourne Airport'',
      additional_stop = None, flight_number = '''', pickup_date = ''2025-01-01'',
      pickup_time = TimeOfDay 0 0, limo_service_type = ''Sedan 1-5'',
      baby_seat = False, return_ride = False, special_instruction = '''',
      vehicle_colour = '''', wedding_ribbon = '''', special_signboard = '''',
      name_on_card = '''', card_type = '''', card_number = '''',
      total_price = SFloat 65\<rparr>"

definition ex_confirmed :: state where
  "ex_confirmed = \<lparr>session = Map.empty, table = [ex_row]\<rparr>"

text \<open>A session that holds the price but neither the breakdown nor the toll flag.\<close>

definition ex_price_only :: state where
  "ex_price_only = \<lparr>session = [''pending_price'' \<mapsto> SFloat 65], table = []\<rparr>"

text \<open>The state a refused confirmation leaves behind from \<open>ex_pending\<close>.\<close>

definition ex_stale :: state where
  "ex_stale =
     \<lparr>session = [''pending_breakdown'' \<mapsto> SBreakdown ex_breakdown,
                 ''pending_has_tolls'' \<mapsto> SBool False],
      table = []\<rparr>"


section \<open>Structure of the two views\<close>

lemma bookings_confirm_step:
  "req_method req = ''POST'' \<Longrightarrow> action_of req = ''confirm'' \<Longrightarrow>
   bookings sv req st =
     Inr (bookings_confirm sv st (bookings_form_data sv req) (pickup_of req)
            (destination_of req) (extra_stop_of req) (service_type_of req)
            (has_baby_seat_of req) (is_return_ride_of req))"
  by (simp add: bookings_def)

lemma orders_confirm_step:
  "req_method req = ''POST'' \<Longrightarrow> action_of req = ''confirm'' \<Longrightarrow>
   orders sv req st =
     Inr (orders_confirm sv st (orders_form_data sv req) (pickup_of req)
            (destination_of req) (extra_stop_of req) (service_type_of req)
            (has_baby_seat_of req) (is_return_ride_of req))"
  by (simp add: orders_def)

lemma bookings_calculate_step:
  "req_method req = ''POST'' \<Longrightarrow> action_of req = ''calculate'' \<Longrightarrow>
   bookings sv req st =
     bookings_calculate sv req st (bookings_form_data sv req) (pickup_of req)
            (destination_of req) (extra_stop_of req) (service_type_of req)
            (has_baby_seat_of req) (is_return_ride_of req)"
  by (simp add: bookings_def)

lemma orders_calculate_step:
  "req_method req = ''POST'' \<Longrightarrow> action_of req = ''calculate'' \<Longrightarrow>
   orders sv req st =
     Inr (orders_calculate sv st (orders_form_data sv req) (pickup_of req)
            (destination_of req) (extra_stop_of req) (service_type_of req)
            (has_baby_seat_of req) (is_return_ride_of req))"
  by (simp add: orders_def)

lemma bookings_confirm_expired:
  "session st ''pending_price'' = None \<Longrightarrow>
   bookings_confirm sv st fd p d e t b r =
     (FormError ''bookings/booking_form.html''
        ''Your session expired. Please fill in the form again.'' fd, st)"
  by (simp add: bookings_confirm_def session_pop_def)

lemma orders_confirm_expired:
  "session st ''pending_price'' = None \<Longrightarrow>
   orders_confirm sv st fd p d e t b r =
     (FormError ''orders/booking_form.html''
        ''Your session expired. Please recalculate the price.'' fd, st)"
  by (simp add: orders_confirm_def session_pop_def)

lemma bookings_confirm_consumes:
  "session (snd (bookings_confirm sv st fd p d e t b r)) ''pending_price'' = None"
  by (auto simp: bookings_confirm_def session_pop_def objects_create_def Let_def
           split: option.splits sum.splits prod.splits)

lemma orders_confirm_consumes:
  "session (snd (orders_confirm sv st fd p d e t b r)) ''pending_price'' = None"
  by (auto simp: orders_confirm_def session_pop_def objects_create_def Let_def
           split: option.splits sum.splits prod.splits)

lemma form_data_same: "orders_form_data sv req = bookings_form_data sv req"
  by (simp add: orders_form_data_def bookings_form_data_def)

lemma row_same: "orders_row fd p d e t b r fp = bookings_row fd p d e t b r fp"
  by (simp add: orders_row_def bookings_row_def)

lemma ex_request_facts:
  "req_method ex_confirm = ''POST''" "action_of ex_confirm = ''confirm''"
  "req_method ex_confirm_tampered = ''POST''" "action_of ex_confirm_tampered = ''confirm''"
  "req_method ex_calculate = ''POST''" "action_of ex_calculate = ''calculate''"
  by (simp_all add: ex_confirm_def ex_confirm_tampered_def ex_calculate_def action_of_def
        post_get_def ex_fields_def)

lemma strip_ex:
  "strip '' 1 Collins St '' = ''1 Collins St''"
  "strip ''Melbourne Airport'' = ''Melbourne Airport''"
  "strip [] = []"
  by (simp_all add: strip_def is_space_def)

lemma ex_confirm_vars:
  "pickup_of ex_confirm = ''1 Collins St''"
  "destination_of ex_confirm = ''Melbourne Airport''"
  "extra_stop_of ex_confirm = None"
  "service_type_of ex_confirm = ''Sedan 1-5''"
  "has_baby_seat_of ex_confirm = False"
  "is_return_ride_of ex_confirm = False"
  by (simp_all add: ex_confirm_def ex_fields_def pickup_of_def destination_of_def
        extra_stop_of_def service_type_of_def has_baby_seat_of_def is_return_ride_of_def
        post_get_def post_has_def strip_ex)

lemma ex_confirm_row:
  "bookings_row (bookings_form_data ex_services ex_confirm) ''1 Collins St''
     ''Melbourne Airport'' None ''Sedan 1-5'' False False (SFloat 65) = ex_row"
  apply (simp add: bookings_row_def)
  apply (simp add: bookings_form_data_def)
  apply (simp add: ex_row_def)
  apply (simp add: ex_services_def ex_confirm_def ex_fields_def post_get_def post_get_int_def)
  done

lemma ex_pending_pops:
  "session_pop (session ex_pending) ''pending_price'' SNone =
     (SFloat 65, [''pending_breakdown'' \<mapsto> SBreakdown ex_breakdown,
                  ''pending_has_tolls'' \<mapsto> SBool False])"
  "session_pop [''pending_breakdown'' \<mapsto> SBreakdown ex_breakdown,
                ''pending_has_tolls'' \<mapsto> SBool False] ''pending_breakdown'' SEmptyDict =
     (SBreakdown ex_breakdown, [''pending_has_tolls'' \<mapsto> SBool False])"
  "session_pop [''pending_has_tolls'' \<mapsto> SBool False] ''pending_has_tolls'' (SBool False) =
     (SBool False, Map.empty)"
  by (auto simp: session_pop_def ex_pending_def)

lemma ex_pending_table: "table ex_pending = []"
  by (simp add: ex_pending_def)

lemma ex_confirm_run:
  "bookings ex_services ex_confirm ex_pending =
     Inr (Confirmed ''orders/booking_confirmed.html'' ex_row (SBreakdown ex_breakdown)
            (SBool False) False, ex_confirmed)"
  apply (simp add: bookings_confirm_step ex_request_facts ex_confirm_vars bookings_confirm_def
       ex_pending_pops ex_confirm_row objects_create_def)
  apply (simp add: ex_services_def ex_confirmed_def ex_pending_pops ex_pending_table)
  done

lemma ex_confirm_run_orders:
  "orders ex_services ex_confirm ex_pending =
     Inr (Confirmed ''orders/booking_confirmed.html'' ex_row (SBreakdown ex_breakdown)
            (SBool False) False, ex_confirmed)"
  apply (simp add: orders_confirm_step ex_request_facts ex_confirm_vars orders_confirm_def
       ex_pending_pops form_data_same row_same ex_confirm_row objects_create_def)
  apply (simp add: ex_services_def ex_confirmed_def ex_pending_pops ex_pending_table)
  done


section \<open>The session protocol of confirm\<close>

text \<open>
  C3. A confirmation in a session that holds no \<open>pending_price\<close> is answered with the
  "session expired" form and leaves the session and the table as they were, in both views;
  and whatever a confirmation answers, the state it leaves holds no \<open>pending_price\<close>, so the
  confirmation that follows it immediately is answered with the "session expired" form and
  persists nothing.
\<close>

theorem confirm_without_pending_price:
  assumes "req_method req = ''POST''" and "action_of req = ''confirm''"
  shows "(session st ''pending_price'' = None \<longrightarrow>
            bookings sv req st =
              Inr (FormError ''bookings/booking_form.html''
                     ''Your session expired. Please fill in the form again.''
                     (bookings_form_data sv req), st)
          \<and> orders sv req st =
              Inr (FormError ''orders/booking_form.html''
                     ''Your session expired. Please recalculate the price.''
                     (orders_form_data sv req), st))
       \<and> (\<forall>r st' sv' req'. bookings sv req st = Inr (r, st') \<and> req_method req' = ''POST'' \<and>
              action_of req' = ''confirm'' \<longrightarrow>
            bookings sv' req' st' =
              Inr (FormError ''bookings/booking_form.html''
                     ''Your session expired. Please fill in the form again.''
                     (bookings_form_data sv' req'), st'))
       \<and> (\<forall>r st' sv' req'. orders sv req st = Inr (r, st') \<and> req_method req' = ''POST'' \<and>
              action_of req' = ''confirm'' \<longrightarrow>
            orders sv' req' st' =
              Inr (FormError ''orders/booking_form.html''
                     ''Your session expired. Please recalculate the price.''
                     (orders_form_data sv' req'), st'))"
proof (intro conjI impI allI)
  assume "session st ''pending_price'' = None"
  then show "bookings sv req st =
              Inr (FormError ''bookings/booking_form.html''
                     ''Your session expired. Please fill in the form again.''
                     (bookings_form_data sv req), st)"
    using assms by (simp add: bookings_confirm_step bookings_confirm_expired)
next
  assume "session st ''pending_price'' = None"
  then show "orders sv req st =
              Inr (FormError ''orders/booking_form.html''
                     ''Your session expired. Please recalculate the price.''
                     (orders_form_data sv req), st)"
    using assms by (simp add: orders_confirm_step orders_confirm_expired)
next
  fix r st' sv' req'
  assume a: "bookings sv req st = Inr (r, st') \<and> req_method req' = ''POST'' \<and>
             action_of req' = ''confirm''"
  with assms have "session st' ''pending_price'' = None"
    using bookings_confirm_consumes
      [of sv st "bookings_form_data sv req" "pickup_of req" "destination_of req"
          "extra_stop_of req" "service_type_of req" "has_baby_seat_of req"
          "is_return_ride_of req"]
    by (simp add: bookings_confirm_step)
  with a show "bookings sv' req' st' =
              Inr (FormError ''bookings/booking_form.html''
                     ''Your session expired. Please fill in the form again.''
                     (bookings_form_data sv' req'), st')"
    by (simp add: bookings_confirm_step bookings_confirm_expired)
next
  fix r st' sv' req'
  assume a: "orders sv req st = Inr (r, st') \<and> req_method req' = ''POST'' \<and>
             action_of req' = ''confirm''"
  with assms have "session st' ''pending_price'' = None"
    using orders_confirm_consumes
      [of sv st "orders_form_data sv req" "pickup_of req" "destination_of req"
          "extra_stop_of req" "service_type_of req" "has_baby_seat_of req"
          "is_return_ride_of req"]
    by (simp add: orders_confirm_step)
  with a show "orders sv' req' st' =
              Inr (FormError ''orders/booking_form.html''
                     ''Your session expired. Please recalculate the price.''
                     (orders_form_data sv' req'), st')"
    by (simp add: orders_confirm_step orders_confirm_expired)
qed

theorem confirm_without_pending_price_witness:
  "bookings ex_services ex_confirm ex_empty =
     Inr (FormError ''bookings/booking_form.html''
            ''Your session expired. Please fill in the form again.''
            (bookings_form_data ex_services ex_confirm), ex_empty)
   \<and> bookings ex_services ex_confirm ex_pending =
     Inr (Confirmed ''orders/booking_confirmed.html'' ex_row (SBreakdown ex_breakdown)
            (SBool False) False, ex_confirmed)
   \<and> bookings ex_services ex_confirm ex_confirmed =
     Inr (FormError ''bookings/booking_form.html''
            ''Your session expired. Please fill in the form again.''
            (bookings_form_data ex_services ex_confirm), ex_confirmed)
   \<and> orders ex_services ex_confirm ex_confirmed =
     Inr (FormError ''orders/booking_form.html''
            ''Your session expired. Please recalculate the price.''
            (orders_form_data ex_services ex_confirm), ex_confirmed)"
  using confirm_without_pending_price [of ex_confirm ex_empty ex_services]
    confirm_without_pending_price [of ex_confirm ex_pending ex_services]
    ex_confirm_run ex_confirm_run_orders
  by (simp add: ex_request_facts ex_empty_def)

end
